theory Spec2Isabelle
  imports Main
begin

section \<open>Decoded payloads and the JavaScript operations the handlers apply to them\<close>

text \<open>
  The value that \<open>await response.json()\<close> yields. An object is kept as the list of its
  own entries (a decoded object has each key once; a read takes the first entry of a key).
  A number is kept as its decimal rendering, since no handler computes with one.
\<close>

datatype json =
    JNull
  | JBool bool
  | JNum string
  | JStr string
  | JArr "json list"
  | JObj "(string \<times> json) list"

text \<open>
  A thrown value: an \<open>Error\<close> instance with its message, a \<open>TypeError\<close> instance
  with its message (also an instance of \<open>Error\<close>), or a thrown value that is no
  \<open>Error\<close> instance. The messages of the errors the engine raises are the wording of V8.
\<close>

datatype exn =
    JsError string
  | JsTypeError string
  | NonErrorValue

fun instanceof_Error :: "exn \<Rightarrow> bool" where
  "instanceof_Error (JsError m) = True"
| "instanceof_Error (JsTypeError m) = True"
| "instanceof_Error NonErrorValue = False"

fun exn_message :: "exn \<Rightarrow> string" where
  "exn_message (JsError m) = m"
| "exn_message (JsTypeError m) = m"
| "exn_message NonErrorValue = []"

fun js_typeof :: "json \<Rightarrow> string" where
  "js_typeof JNull = ''object''"
| "js_typeof (JBool b) = ''boolean''"
| "js_typeof (JNum n) = ''number''"
| "js_typeof (JStr s) = ''string''"
| "js_typeof (JArr xs) = ''object''"
| "js_typeof (JObj kvs) = ''object''"

text \<open>
  \<open>HasProperty\<close> for the keys the handlers test, \<open>code\<close> and \<open>error\<close>: neither is an
  index or \<open>length\<close> of an array, and neither is inherited from \<open>Object.prototype\<close> or
  \<open>Array.prototype\<close>, so the test is the one for an own key of an object.
\<close>

fun has_property :: "string \<Rightarrow> json \<Rightarrow> bool" where
  "has_property k (JObj kvs) = (k \<in> set (map fst kvs))"
| "has_property k v = False"

text \<open>A property read \<open>v.k\<close> on an object or array; \<open>None\<close> is \<open>undefined\<close>.\<close>

fun get_prop :: "string \<Rightarrow> json \<Rightarrow> json option" where
  "get_prop k (JObj kvs) = map_of kvs k"
| "get_prop k v = None"

fun is_primitive :: "json \<Rightarrow> bool" where
  "is_primitive (JArr xs) = False"
| "is_primitive (JObj kvs) = False"
| "is_primitive v = True"

fun prim_string :: "json \<Rightarrow> string" where
  "prim_string JNull = ''null''"
| "prim_string (JBool b) = (if b then ''true'' else ''false'')"
| "prim_string (JNum n) = n"
| "prim_string (JStr s) = s"
| "prim_string v = []"

text \<open>The operator \<open>k in v\<close>: a \<open>TypeError\<close> when \<open>v\<close> is not an object.\<close>

definition in_operator_message :: "string \<Rightarrow> json \<Rightarrow> string" where
  "in_operator_message k v =
     ''Cannot use '' @ [CHR 0x27] @ ''in'' @ [CHR 0x27] @ '' operator to search for ''
       @ [CHR 0x27] @ k @ [CHR 0x27] @ '' in '' @ prim_string v"

definition js_in :: "string \<Rightarrow> json \<Rightarrow> exn + bool" where
  "js_in k v =
     (if is_primitive v
      then Inl (JsTypeError (in_operator_message k v))
      else Inr (has_property k v))"

text \<open>
  \<open>ToString\<close>, as a template literal and the \<open>Error\<close> constructor apply it. An array
  joins its elements with commas, \<open>null\<close> elements as the empty string. A decoded object
  has no callable member: one with an own key \<open>toString\<close> cannot be converted, any other
  is rendered by \<open>Object.prototype.toString\<close>.
\<close>

fun js_to_string :: "json \<Rightarrow> exn + string"
  and js_join :: "json list \<Rightarrow> exn + string" where
  "js_to_string JNull = Inr ''null''"
| "js_to_string (JBool b) = Inr (if b then ''true'' else ''false'')"
| "js_to_string (JNum n) = Inr n"
| "js_to_string (JStr s) = Inr s"
| "js_to_string (JArr xs) = js_join xs"
| "js_to_string (JObj kvs) =
     (if ''toString'' \<in> set (map fst kvs)
      then Inl (JsTypeError ''Cannot convert object to primitive value'')
      else Inr ''[object Object]'')"
| "js_join [] = Inr []"
| "js_join (x # xs) =
     (case (if x = JNull then Inr [] else js_to_string x) of
        Inl e \<Rightarrow> Inl e
      | Inr s \<Rightarrow>
          (if xs = [] then Inr s
           else (case js_join xs of Inl e \<Rightarrow> Inl e | Inr r \<Rightarrow> Inr (s @ '','' @ r))))"

text \<open>A value spliced into a template literal; \<open>undefined\<close> is spelled out.\<close>

definition template_string :: "json option \<Rightarrow> exn + string" where
  "template_string x = (case x of None \<Rightarrow> Inr ''undefined'' | Some v \<Rightarrow> js_to_string v)"

text \<open>\<open>new Error(message)\<close>: an absent message gives the empty message.\<close>

definition new_Error :: "json option \<Rightarrow> exn + exn" where
  "new_Error message =
     (case message of
        None \<Rightarrow> Inr (JsError [])
      | Some v \<Rightarrow> (case js_to_string v of Inl e \<Rightarrow> Inl e | Inr s \<Rightarrow> Inr (JsError s)))"

section \<open>The two error classifiers\<close>

text \<open>
  \<open>isApiError\<close> of the profile-edit route:
  \<open>typeof response === "object" && response !== null && "code" in response\<close>.
\<close>

definition isApiError :: "json \<Rightarrow> bool" where
  "isApiError response =
     (js_typeof response = ''object'' \<and> response \<noteq> JNull \<and> has_property ''code'' response)"

text \<open>\<open>isErrorResponse\<close> of the user-detail route: \<open>"error" in response\<close>.\<close>

definition isErrorResponse :: "json \<Rightarrow> exn + bool" where
  "isErrorResponse response = js_in ''error'' response"

section \<open>Requests, the backend and the outcome of a handler\<close>

type_synonym header = "string \<times> string"

text \<open>The identity the provider resolves; the handlers read its \<open>id\<close> only.\<close>

record user =
  user_id :: string

text \<open>A value of a form field: text or an uploaded file.\<close>

datatype form_entry = FormText string | FormFile

text \<open>
  What a handler reads of the request: \<open>request.headers.get("Cookie")\<close> and the result of
  \<open>await request.formData()\<close>, which rejects when the body is no form.
\<close>

record request =
  req_cookie :: "string option"
  req_form :: "exn + (string \<times> form_entry) list"

text \<open>
  A call of the backend API client: \<open>users[":userId"].$get\<close>, \<open>users[":userId"].$patch\<close>
  with its \<open>json\<close> body \<open>{name, bio}\<close>, and \<open>users[":userId"].posts.$get\<close> with the
  \<open>query\<close> it is given.
\<close>

datatype call =
    GetUser string
  | PatchUser string "form_entry option" "form_entry option"
  | GetPosts string "(string \<times> string) list"

text \<open>A response of the backend: \<open>response.ok\<close> and the result of \<open>await response.json()\<close>.\<close>

record api_response =
  resp_ok :: bool
  resp_json :: "exn + json"

text \<open>What a handler leaves behind: the backend calls issued and the lines of \<open>console.error\<close>.\<close>

record world =
  api_log :: "call list"
  console :: "exn list"

text \<open>
  The answer of the identity provider to \<open>client.auth.signInWithOAuth\<close>: \<open>data\<close>
  (an object with a \<open>url\<close>, or \<open>null\<close>) and \<open>error\<close> (\<open>null\<close>, or an error of which
  the message is read).
\<close>

record oauth_data =
  data_url :: "string option"

record oauth_reply =
  reply_data :: "oauth_data option"
  reply_error :: "string option"

text \<open>The object that \<open>signInWithGoogle\<close> returns.\<close>

record sign_in_result =
  si_ok :: bool
  si_data :: "oauth_data option"
  si_error :: string
  si_headers :: "header list"

text \<open>
  The surroundings of one request. \<open>createSupabaseServerClient\<close> and \<open>getApiClient\<close>
  are imported by the routes; what they give is taken as given: \<open>session_headers\<close> is
  the \<open>headers\<close> that \<open>createSupabaseServerClient\<close> returns beside the client,
  \<open>auth_user\<close> is \<open>data.user\<close> of \<open>client.auth.getUser()\<close>, \<open>oauth\<close> the answer of
  \<open>client.auth.signInWithOAuth\<close> for a provider and a \<open>redirectTo\<close>, and \<open>api_reply\<close>
  the backend: its answer to a call, given the calls it has received before (a rejected
  call is \<open>Inl\<close>).
\<close>

record env =
  auth_user :: "user option"
  session_headers :: "header list"
  oauth :: "string \<Rightarrow> string \<Rightarrow> oauth_reply"
  api_reply :: "call list \<Rightarrow> call \<Rightarrow> exn + api_response"

text \<open>
  How a handler ends: a loader's data object, an action's \<open>{error}\<close> object (\<open>None\<close> when
  the value is \<open>undefined\<close>), a \<open>redirect\<close> with the headers it is given, or a throw.
\<close>

datatype outcome =
    PageData "(string \<times> json) list"
  | FormError "json option"
  | Redirect string "header list"
  | Thrown exn

text \<open>The headers a handler puts on its response; only \<open>redirect\<close> is ever given any.\<close>

fun outcome_headers :: "outcome \<Rightarrow> header list" where
  "outcome_headers (Redirect target hs) = hs"
| "outcome_headers r = []"

definition api_call :: "env \<Rightarrow> world \<Rightarrow> call \<Rightarrow> (exn + api_response) \<times> world" where
  "api_call e w c = (api_reply e (api_log w) c, w\<lparr>api_log := api_log w @ [c]\<rparr>)"

text \<open>
  \<open>params.userId\<close> is a string or \<open>undefined\<close>; \<open>!userId\<close> holds when it is absent
  or empty. Both give the same throw.
\<close>

definition userId_required :: exn where
  "userId_required = JsError ''User ID is required''"

text \<open>\<open>!user || user.id !== userId\<close>\<close>

definition not_self :: "user option \<Rightarrow> string \<Rightarrow> bool" where
  "not_self u userId = (case u of None \<Rightarrow> True | Some x \<Rightarrow> user_id x \<noteq> userId)"

text \<open>\<open>formData.get(name)\<close>: the first entry of that name, \<open>None\<close> for \<open>null\<close>.\<close>

definition form_get :: "(string \<times> form_entry) list \<Rightarrow> string \<Rightarrow> form_entry option" where
  "form_get formData name = map_of formData name"

text \<open>\<open>s || d\<close> for a string that may be absent.\<close>

definition or_else :: "string option \<Rightarrow> string \<Rightarrow> string" where
  "or_else s d = (case s of None \<Rightarrow> d | Some x \<Rightarrow> (if x = [] then d else x))"

section \<open>The profile-edit route\<close>

text \<open>The loader of \<open>users/$userId/edit\<close>.\<close>

definition loader_edit :: "env \<Rightarrow> request \<Rightarrow> string option \<Rightarrow> world \<Rightarrow> outcome \<times> world" where
  "loader_edit e request params_userId w =
     (case params_userId of
        None \<Rightarrow> (Thrown userId_required, w)
      | Some userId \<Rightarrow>
        if userId = [] then (Thrown userId_required, w)
        else
        let u = auth_user e in
        if not_self u userId then (Thrown (JsError ''Unauthorized''), w)
        else
          (case api_call e w (GetUser userId) of
             (Inl ex, w1) \<Rightarrow> (Thrown ex, w1)
           | (Inr userResponse, w1) \<Rightarrow>
               (case resp_json userResponse of
                  Inl ex \<Rightarrow> (Thrown ex, w1)
                | Inr userData \<Rightarrow>
                    if isApiError userData then
                      (if get_prop ''code'' userData = Some (JStr ''NotFoundError'')
                       then (Redirect ''/complete-profile''
                               [(''Set-Cookie'', or_else (req_cookie request) [])], w1)
                       else
                         (case new_Error (get_prop ''message'' userData) of
                            Inl ex \<Rightarrow> (Thrown ex, w1)
                          | Inr err \<Rightarrow> (Thrown err, w1)))
                    else (PageData [(''pageUser'', userData)], w1))))"

text \<open>
  The \<open>catch\<close> block of the action: \<open>console.error\<close>, then
  \<open>{ error: error instanceof Error ? error.message : "Failed to update profile" }\<close>.
\<close>

definition catch_update :: "exn \<Rightarrow> world \<Rightarrow> outcome \<times> world" where
  "catch_update ex w =
     (FormError (Some (JStr (if instanceof_Error ex then exn_message ex
                             else ''Failed to update profile''))),
      w\<lparr>console := console w @ [ex]\<rparr>)"

text \<open>The action of \<open>users/$userId/edit\<close>.\<close>

definition action_edit :: "env \<Rightarrow> request \<Rightarrow> string option \<Rightarrow> world \<Rightarrow> outcome \<times> world" where
  "action_edit e request params_userId w =
     (case req_form request of
        Inl ex \<Rightarrow> (Thrown ex, w)
      | Inr formData \<Rightarrow>
          let name = form_get formData ''name''; bio = form_get formData ''bio'' in
          (case params_userId of
             None \<Rightarrow> (Thrown userId_required, w)
           | Some userId \<Rightarrow>
            if userId = [] then (Thrown userId_required, w)
            else
            let u = auth_user e in
            if not_self u userId then (Thrown (JsError ''Unauthorized''), w)
            else
              (case api_call e w (PatchUser userId name bio) of
                 (Inl ex, w1) \<Rightarrow> catch_update ex w1
               | (Inr response, w1) \<Rightarrow>
                   (case resp_json response of
                      Inl ex \<Rightarrow> catch_update ex w1
                    | Inr responseData \<Rightarrow>
                        if \<not> resp_ok response then
                          (if isApiError responseData
                           then (FormError (get_prop ''message'' responseData), w1)
                           else (FormError (Some (JStr ''Failed to update profile'')), w1))
                        else if isApiError responseData
                          then (FormError (get_prop ''message'' responseData), w1)
                        else (Redirect (''/users/'' @ userId) [], w1)))))"

section \<open>The user-detail route\<close>

text \<open>
  The \<open>URLSearchParams\<close> the loader fills before it fetches the posts:
  \<open>publicOnly=true\<close> without a user, \<open>currentUserId=<id>\<close> with one.
\<close>

definition posts_searchParams :: "user option \<Rightarrow> (string \<times> string) list" where
  "posts_searchParams u =
     (case u of None \<Rightarrow> [(''publicOnly'', ''true'')]
      | Some x \<Rightarrow> [(''currentUserId'', user_id x)])"

text \<open>
  The loader of \<open>users/$userId\<close>. The posts are fetched with
  \<open>posts.$get({ param: { userId } })\<close>: the call is given no \<open>query\<close>.
\<close>

definition loader_detail :: "env \<Rightarrow> request \<Rightarrow> string option \<Rightarrow> world \<Rightarrow> outcome \<times> world" where
  "loader_detail e request params_userId w =
     (case params_userId of
        None \<Rightarrow> (Thrown userId_required, w)
      | Some userId \<Rightarrow>
        if userId = [] then (Thrown userId_required, w)
        else
        let u = auth_user e in
        (case api_call e w (GetUser userId) of
           (Inl ex, w1) \<Rightarrow> (Thrown ex, w1)
         | (Inr userResponse, w1) \<Rightarrow>
             (case resp_json userResponse of
                Inl ex \<Rightarrow> (Thrown ex, w1)
              | Inr userData \<Rightarrow>
                  (case isErrorResponse userData of
                     Inl ex \<Rightarrow> (Thrown ex, w1)
                   | Inr True \<Rightarrow> (Thrown (JsError ''User not found''), w1)
                   | Inr False \<Rightarrow>
                       let searchParams = posts_searchParams u in
                       (case api_call e w1 (GetPosts userId []) of
                          (Inl ex, w2) \<Rightarrow> (Thrown ex, w2)
                        | (Inr postsResponse, w2) \<Rightarrow>
                            (case resp_json postsResponse of
                               Inl ex \<Rightarrow> (Thrown ex, w2)
                             | Inr data \<Rightarrow>
                                 (case isErrorResponse data of
                                    Inl ex \<Rightarrow> (Thrown ex, w2)
                                  | Inr True \<Rightarrow>
                                      (case template_string (get_prop ''error'' data) of
                                         Inl ex \<Rightarrow> (Thrown ex, w2)
                                       | Inr s \<Rightarrow>
                                           (Thrown (JsError (''Failed to fetch posts: '' @ s)), w2))
                                  | Inr False \<Rightarrow>
                                      (PageData [(''pageUser'', userData), (''postsData'', data)],
                                       w2))))))))"

section \<open>The signup route\<close>

text \<open>The fallback message of the signup action, as the bytes of its UTF-8 encoding.\<close>

definition signup_failed_message :: string where
  "signup_failed_message =
     [CHR 0xE3, CHR 0x82, CHR 0xA2, CHR 0xE3, CHR 0x82, CHR 0xAB, CHR 0xE3, CHR 0x82, CHR 0xA6,
      CHR 0xE3, CHR 0x83, CHR 0xB3, CHR 0xE3, CHR 0x83, CHR 0x88, CHR 0xE4, CHR 0xBD, CHR 0x9C,
      CHR 0xE6, CHR 0x88, CHR 0x90, CHR 0xE3, CHR 0x81, CHR 0xAB, CHR 0xE5, CHR 0xA4, CHR 0xB1,
      CHR 0xE6, CHR 0x95, CHR 0x97, CHR 0xE3, CHR 0x81, CHR 0x97, CHR 0xE3, CHR 0x81, CHR 0xBE,
      CHR 0xE3, CHR 0x81, CHR 0x97, CHR 0xE3, CHR 0x81, CHR 0x9F]"

text \<open>
  \<open>signInWithGoogle\<close> of the auth helpers, called without a \<open>successRedirectPath\<close>, so
  with its default. The \<open>headers\<close> it returns are those of
  \<open>createSupabaseServerClient\<close>.
\<close>

definition signInWithGoogle :: "env \<Rightarrow> sign_in_result" where
  "signInWithGoogle e =
     (let successRedirectPath = ''http://localhost:5173/auth/callback'';
          supabase_headers = session_headers e;
          answer = oauth e ''google'' successRedirectPath;
          data = reply_data answer;
          error = reply_error answer
      in \<lparr>si_ok = (error = None \<and> data \<noteq> None),
          si_data = data,
          si_error = (case error of None \<Rightarrow> [] | Some message \<Rightarrow> (if data = None then message else [])),
          si_headers = supabase_headers\<rparr>)"

text \<open>\<open>data?.url\<close>\<close>

definition data_url_of :: "oauth_data option \<Rightarrow> string option" where
  "data_url_of data = (case data of None \<Rightarrow> None | Some d \<Rightarrow> data_url d)"

text \<open>The action of \<open>signup\<close>.\<close>

definition action_signup :: "env \<Rightarrow> request \<Rightarrow> world \<Rightarrow> outcome \<times> world" where
  "action_signup e request w =
     (case req_form request of
        Inl ex \<Rightarrow> (Thrown ex, w)
      | Inr formData \<Rightarrow>
          let provider = form_get formData ''provider'' in
          if provider = Some (FormText ''google'') then
            let r = signInWithGoogle e;
                failed =
                  (FormError (Some (JStr (or_else (Some (si_error r)) signup_failed_message))), w)
            in
            (case data_url_of (si_data r) of
               None \<Rightarrow> failed
             | Some url \<Rightarrow>
                 if si_error r = [] \<and> url \<noteq> []
                 then (Redirect url (si_headers r), w)
                 else failed)
          else (FormError (Some (JStr ''Invalid provider'')), w))"

section \<open>Notions of the specification\<close>

text \<open>
  Follows the spec's words, not the code: a payload is a \<open>Failure\<close> when it contains an
  error-indicating field, either a generic \<open>error\<close> field or a structured pair of
  \<open>code\<close> and \<open>message\<close>.
\<close>

definition spec_failure :: "json \<Rightarrow> bool" where
  "spec_failure v =
     (has_property ''error'' v \<or> (has_property ''code'' v \<and> has_property ''message'' v))"



fun is_redirect :: "outcome \<Rightarrow> bool" where
  "is_redirect (Redirect target hs) = True"
| "is_redirect r = False"

section \<open>Sample requests and backends\<close>

definition fresh_world :: world where
  "fresh_world = \<lparr>api_log = [], console = []\<rparr>"

definition profile_123 :: json where
  "profile_123 =
     JObj [(''id'', JStr ''123''), (''name'', JStr ''Aya''), (''email'', JStr ''aya@example.com''),
           (''bio'', JNull)]"

definition posts_123 :: json where
  "posts_123 =
     JArr [JObj [(''id'', JStr ''p1''), (''title'', JStr ''hello''), (''user_id'', JStr ''123''),
                 (''is_public'', JBool True)]]"

definition responded :: "bool \<Rightarrow> json \<Rightarrow> exn + api_response" where
  "responded ok d = Inr \<lparr>resp_ok = ok, resp_json = Inr d\<rparr>"

text \<open>A backend that answers the user calls with one payload and the posts call with another.\<close>

fun backend :: "bool \<Rightarrow> json \<Rightarrow> json \<Rightarrow> call list \<Rightarrow> call \<Rightarrow> exn + api_response" where
  "backend ok userData postsData history (GetUser uid) = responded ok userData"
| "backend ok userData postsData history (PatchUser uid name bio) = responded ok userData"
| "backend ok userData postsData history (GetPosts uid query) = responded ok postsData"

text \<open>A backend that cannot be reached: every call rejects.\<close>

definition backend_down :: "exn \<Rightarrow> call list \<Rightarrow> call \<Rightarrow> exn + api_response" where
  "backend_down ex history c = Inl ex"

text \<open>A backend whose bodies are no JSON: \<open>response.json()\<close> rejects.\<close>

definition backend_garbled :: "exn \<Rightarrow> call list \<Rightarrow> call \<Rightarrow> exn + api_response" where
  "backend_garbled ex history c = Inr \<lparr>resp_ok = True, resp_json = Inl ex\<rparr>"

text \<open>An identity provider that starts the sign-in, and one that refuses it.\<close>

definition oauth_started :: "string \<Rightarrow> string \<Rightarrow> oauth_reply" where
  "oauth_started provider redirectTo =
     \<lparr>reply_data = Some \<lparr>data_url = Some ''https://accounts.example/o/oauth2''\<rparr>,
      reply_error = None\<rparr>"

definition oauth_refused :: "string \<Rightarrow> string \<Rightarrow> oauth_reply" where
  "oauth_refused provider redirectTo =
     \<lparr>reply_data = Some \<lparr>data_url = None\<rparr>, reply_error = Some ''provider disabled''\<rparr>"

text \<open>The surroundings of a request whose session the provider has just refreshed.\<close>

definition env_of :: "user option \<Rightarrow> (call list \<Rightarrow> call \<Rightarrow> exn + api_response) \<Rightarrow> env" where
  "env_of u b =
     \<lparr>auth_user = u, session_headers = [(''Set-Cookie'', ''sb-token=fresh'')],
      oauth = oauth_started, api_reply = b\<rparr>"

definition user_123 :: user where
  "user_123 = \<lparr>user_id = ''123''\<rparr>"

definition user_456 :: user where
  "user_456 = \<lparr>user_id = ''456''\<rparr>"

text \<open>
  A page request (it has no form to read), two form submissions, and a submission whose
  body is no form, so that \<open>request.formData()\<close> rejects.
\<close>

definition page_request :: request where
  "page_request =
     \<lparr>req_cookie = Some ''sb-token=old'', req_form = Inl (JsTypeError ''no form body'')\<rparr>"

definition edit_submission :: request where
  "edit_submission =
     \<lparr>req_cookie = Some ''sb-token=old'',
      req_form = Inr [(''name'', FormText ''Aya''), (''bio'', FormText ''hi'')]\<rparr>"

definition unreadable_submission :: request where
  "unreadable_submission =
     \<lparr>req_cookie = Some ''sb-token=old'', req_form = Inl (JsTypeError ''no form body'')\<rparr>"

definition signup_submission :: request where
  "signup_submission =
     \<lparr>req_cookie = None, req_form = Inr [(''provider'', FormText ''google'')]\<rparr>"

section \<open>Facts about the classifiers\<close>

lemma isApiError_has_code: "isApiError v = has_property ''code'' v"
  by (cases v) (simp_all add: isApiError_def)

lemma has_property_entry:
  "has_property k v = (\<exists>kvs x. v = JObj kvs \<and> (k, x) \<in> set kvs)"
  by (cases v) (force simp: image_iff)+

lemma isErrorResponse_has_error:
  "(isErrorResponse v = Inr True) = has_property ''error'' v"
  by (cases v) (simp_all add: isErrorResponse_def js_in_def)


lemmas handler_defs =
  loader_edit_def action_edit_def loader_detail_def action_signup_def
  signInWithGoogle_def data_url_of_def
  api_call_def not_self_def catch_update_def userId_required_def Let_def

lemmas sample_defs =
  fresh_world_def profile_123_def posts_123_def responded_def backend_down_def
  backend_garbled_def oauth_started_def oauth_refused_def env_of_def user_123_def user_456_def
  page_request_def edit_submission_def unreadable_submission_def signup_submission_def

section \<open>The user-detail loader and the query of the posts fetch\<close>

text \<open>
  C1. The claim: the posts-list fetch of the user-detail loader carries
  \<open>publicOnly=true\<close> for an anonymous request and \<open>currentUserId=<id>\<close> otherwise.
  The loader fills the search parameters but hands the posts call its path parameter
  only. For the anonymous request to \<open>/users/123\<close> the parameters built are
  \<open>publicOnly=true\<close>, and the two calls issued are the user fetch and a posts fetch
  with an empty query.
\<close>

theorem C1_posts_fetch_without_query:
  "posts_searchParams (auth_user (env_of None (backend True profile_123 posts_123)))
     = [(''publicOnly'', ''true'')]
   \<and> api_log (snd (loader_detail (env_of None (backend True profile_123 posts_123))
                     page_request (Some ''123'') fresh_world))
     = [GetUser ''123'', GetPosts ''123'' []]"
  by (simp add: handler_defs sample_defs posts_searchParams_def isErrorResponse_def js_in_def)

section \<open>Session headers on the responses\<close>

lemma loader_detail_headers: "outcome_headers (fst (loader_detail e rq p w)) = []"
  by (simp add: handler_defs split: option.split sum.split prod.split bool.split)

lemma action_edit_headers: "outcome_headers (fst (action_edit e rq p w)) = []"
  by (simp add: handler_defs split: option.split sum.split prod.split)

lemma loader_edit_headers:
  "outcome_headers (fst (loader_edit e rq p w))
     = (if is_redirect (fst (loader_edit e rq p w))
        then [(''Set-Cookie'', or_else (req_cookie rq) [])] else [])"
  by (simp add: handler_defs split: option.split sum.split prod.split)

lemma action_signup_headers:
  "outcome_headers (fst (action_signup e rq w))
     = (if is_redirect (fst (action_signup e rq w)) then session_headers e else [])"
  by (simp add: handler_defs split: option.split sum.split)

text \<open>
  C2. The claim: on every path of every handler the headers of the session resolver are
  merged into the response. The signup action does so on its redirect, which is given
  the headers that \<open>signInWithGoogle\<close> takes from \<open>createSupabaseServerClient\<close>. The
  handlers of the user routes keep only the client. With a session cookie that the
  resolver has refreshed, the owner's edit page and the user-detail page are rendered
  without any header, the profile-completion redirect carries the request's old cookie
  instead, the accepted profile update redirects without any header, and a refused
  signup returns its \<open>{error}\<close> without any header.
\<close>

theorem C2_session_headers_dropped:
  "session_headers (env_of (Some user_123) (backend True profile_123 posts_123))
     = [(''Set-Cookie'', ''sb-token=fresh'')]
   \<and> outcome_headers (fst (action_signup
         (env_of None (backend True profile_123 posts_123)) signup_submission fresh_world))
     = [(''Set-Cookie'', ''sb-token=fresh'')]
   \<and> loader_edit (env_of (Some user_123) (backend True profile_123 posts_123))
         page_request (Some ''123'') fresh_world
     = (PageData [(''pageUser'', profile_123)], \<lparr>api_log = [GetUser ''123''], console = []\<rparr>)
   \<and> outcome_headers (fst (loader_edit
         (env_of (Some user_123) (backend True profile_123 posts_123))
         page_request (Some ''123'') fresh_world))
     = []
   \<and> outcome_headers (fst (loader_edit
         (env_of (Some user_123)
            (backend False (JObj [(''code'', JStr ''NotFoundError'')]) posts_123))
         page_request (Some ''123'') fresh_world))
     = [(''Set-Cookie'', ''sb-token=old'')]
   \<and> outcome_headers (fst (loader_detail
         (env_of (Some user_123) (backend True profile_123 posts_123))
         page_request (Some ''123'') fresh_world))
     = []
   \<and> outcome_headers (fst (action_edit
         (env_of (Some user_123) (backend True profile_123 posts_123))
         edit_submission (Some ''123'') fresh_world))
     = []
   \<and> outcome_headers (fst (action_signup
         ((env_of None (backend True profile_123 posts_123))\<lparr>oauth := oauth_refused\<rparr>)
         signup_submission fresh_world))
     = []"
  by (simp add: handler_defs sample_defs isApiError_def isErrorResponse_def js_in_def
        or_else_def form_get_def)

section \<open>Classification of payloads\<close>

text \<open>
  C3, as stated: one classifier recognises both error shapes. The code has two, one per
  route, and each knows one shape: \<open>isApiError\<close> passes a payload with a generic
  \<open>error\<close> field, and \<open>isErrorResponse\<close> passes a structured pair of \<open>code\<close> and
  \<open>message\<close>, though both payloads are failures in the spec's sense.
\<close>

theorem C3_classifiers_disagree_with_spec:
  "spec_failure (JObj [(''error'', JStr ''boom'')])
   \<and> \<not> isApiError (JObj [(''error'', JStr ''boom'')])
   \<and> spec_failure (JObj [(''code'', JStr ''ValidationError''), (''message'', JStr ''name required'')])
   \<and> isErrorResponse (JObj [(''code'', JStr ''ValidationError''), (''message'', JStr ''name required'')])
       = Inr False"
  by (simp add: spec_failure_def isApiError_def isErrorResponse_def js_in_def)

text \<open>
  C3, amended: each route classifies with its own function. \<open>isApiError\<close> holds exactly
  of the objects that have a \<open>code\<close> entry (a \<open>message\<close> is not asked for), and
  \<open>isErrorResponse\<close> answers true exactly for the objects that have an \<open>error\<close> entry.
\<close>

theorem C3_classifiers_by_entry:
  "isApiError v = (\<exists>kvs x. v = JObj kvs \<and> (''code'', x) \<in> set kvs)
   \<and> (isErrorResponse v = Inr True) = (\<exists>kvs x. v = JObj kvs \<and> (''error'', x) \<in> set kvs)"
  by (simp only: isApiError_has_code isErrorResponse_has_error has_property_entry [symmetric]
        simp_thms)

theorem C3_classifiers_by_entry_witness:
  "isApiError (JObj [(''code'', JStr ''NotFoundError'')])
   \<and> isErrorResponse (JObj [(''error'', JStr ''boom'')]) = Inr True"
proof -
  have "\<exists>kvs x. JObj [(''code'', JStr ''NotFoundError'')] = JObj kvs \<and> (''code'', x) \<in> set kvs"
    by simp
  moreover have "\<exists>kvs x. JObj [(''error'', JStr ''boom'')] = JObj kvs \<and> (''error'', x) \<in> set kvs"
    by simp
  ultimately show ?thesis
    using C3_classifiers_by_entry [of "JObj [(''code'', JStr ''NotFoundError'')]"]
      C3_classifiers_by_entry [of "JObj [(''error'', JStr ''boom'')]"]
    by blast
qed

section \<open>Authorization before any backend call\<close>

lemma loader_edit_unauthorized:
  assumes "auth_user e = None \<or> (\<exists>u. auth_user e = Some u \<and> user_id u \<noteq> uid)" "uid \<noteq> []"
  shows "loader_edit e rq (Some uid) w = (Thrown (JsError ''Unauthorized''), w)"
  using assms by (auto simp: handler_defs)

lemma action_edit_unauthorized:
  assumes "auth_user e = None \<or> (\<exists>u. auth_user e = Some u \<and> user_id u \<noteq> uid)" "uid \<noteq> []"
  shows "action_edit e rq (Some uid) w
      = (case req_form rq of
           Inl ex \<Rightarrow> (Thrown ex, w)
         | Inr fd \<Rightarrow> (Thrown (JsError ''Unauthorized''), w))"
  using assms by (auto simp: handler_defs split: sum.split)

text \<open>
  C4, as stated: every request to the profile-edit route without the owner's identity
  fails with \<open>Unauthorized\<close>. The action reads the form before it checks the identity:
  an anonymous submission whose body is no form fails with the error of
  \<open>request.formData()\<close>, not with \<open>Unauthorized\<close>.
\<close>

theorem C4_unreadable_body_not_unauthorized:
  "action_edit (env_of None (backend True profile_123 posts_123))
       unreadable_submission (Some ''123'') fresh_world
     = (Thrown (JsTypeError ''no form body''), fresh_world)
   \<and> fst (action_edit (env_of None (backend True profile_123 posts_123))
            unreadable_submission (Some ''123'') fresh_world)
     \<noteq> Thrown (JsError ''Unauthorized'')"
  by (simp add: handler_defs sample_defs)

text \<open>
  C4, amended: when no identity is resolved, or the identity's id differs from the
  \<open>userId\<close> of the path, the loader and the action of the profile-edit route throw and
  issue no backend call: the world is left as it was. The loader throws
  \<open>Unauthorized\<close>; the action throws \<open>Unauthorized\<close> when the form of the request can
  be read, and the error of \<open>request.formData()\<close> when it cannot.
\<close>

theorem C4_unauthorized_before_backend:
  assumes "auth_user e = None \<or> (\<exists>u. auth_user e = Some u \<and> user_id u \<noteq> uid)"
    and "uid \<noteq> []"
  shows "loader_edit e rq (Some uid) w = (Thrown (JsError ''Unauthorized''), w)
    \<and> action_edit e rq (Some uid) w
        = (case req_form rq of
             Inl ex \<Rightarrow> (Thrown ex, w)
           | Inr fd \<Rightarrow> (Thrown (JsError ''Unauthorized''), w))
    \<and> api_log (snd (loader_edit e rq (Some uid) w)) = api_log w
    \<and> api_log (snd (action_edit e rq (Some uid) w)) = api_log w"
proof -
  have l: "loader_edit e rq (Some uid) w = (Thrown (JsError ''Unauthorized''), w)"
    using assms by (rule loader_edit_unauthorized)
  have a: "action_edit e rq (Some uid) w
      = (case req_form rq of
           Inl ex \<Rightarrow> (Thrown ex, w)
         | Inr fd \<Rightarrow> (Thrown (JsError ''Unauthorized''), w))"
    using assms by (rule action_edit_unauthorized)
  have "api_log (snd (action_edit e rq (Some uid) w)) = api_log w"
    unfolding a by (simp split: sum.split)
  with l a show ?thesis by simp
qed

theorem C4_unauthorized_before_backend_witness:
  "loader_edit (env_of (Some user_456) (backend True profile_123 posts_123))
       edit_submission (Some ''123'') fresh_world
     = (Thrown (JsError ''Unauthorized''), fresh_world)
   \<and> action_edit (env_of (Some user_456) (backend True profile_123 posts_123))
       edit_submission (Some ''123'') fresh_world
     = (Thrown (JsError ''Unauthorized''), fresh_world)
   \<and> action_edit (env_of None (backend True profile_123 posts_123))
       unreadable_submission (Some ''123'') fresh_world
     = (Thrown (JsTypeError ''no form body''), fresh_world)"
proof -
  let ?other = "env_of (Some user_456) (backend True profile_123 posts_123)"
  let ?anon = "env_of None (backend True profile_123 posts_123)"
  have a: "auth_user ?other = None \<or> (\<exists>u. auth_user ?other = Some u \<and> user_id u \<noteq> ''123'')"
    by (simp add: sample_defs)
  have b: "auth_user ?anon = None \<or> (\<exists>u. auth_user ?anon = Some u \<and> user_id u \<noteq> ''123'')"
    by (simp add: sample_defs)
  have n: "''123'' \<noteq> []" by simp
  show ?thesis
    using C4_unauthorized_before_backend [OF a n, of edit_submission fresh_world]
      C4_unauthorized_before_backend [OF b n, of unreadable_submission fresh_world]
    by (simp add: edit_submission_def unreadable_submission_def)
qed

section \<open>The profile-edit loader: a missing profile and other failures\<close>

text \<open>
  C5. When the backend answers the profile-edit loader with a payload that classifies as
  an error with code \<open>NotFoundError\<close>, the loader redirects to \<open>/complete-profile\<close>,
  and the \<open>Set-Cookie\<close> header of the redirect is the \<open>Cookie\<close> header of the request
  (empty when the request has none).
\<close>

theorem C5_not_found_redirect:
  assumes "uid \<noteq> []" and "auth_user e = Some u" and "user_id u = uid"
    and "api_reply e (api_log w) (GetUser uid) = Inr r" and "resp_json r = Inr d"
    and "isApiError d" and "get_prop ''code'' d = Some (JStr ''NotFoundError'')"
  shows "fst (loader_edit e rq (Some uid) w)
      = Redirect ''/complete-profile''
          [(''Set-Cookie'', (case req_cookie rq of None \<Rightarrow> [] | Some c \<Rightarrow> c))]"
  using assms by (simp add: handler_defs or_else_def split: option.split)

theorem C5_not_found_redirect_witness:
  "fst (loader_edit
     (env_of (Some user_123)
        (backend False (JObj [(''code'', JStr ''NotFoundError''), (''message'', JStr ''no profile'')])
           posts_123))
     page_request (Some ''123'') fresh_world)
   = Redirect ''/complete-profile'' [(''Set-Cookie'', ''sb-token=old'')]"
proof -
  let ?d = "JObj [(''code'', JStr ''NotFoundError''), (''message'', JStr ''no profile'')]"
  let ?e = "env_of (Some user_123) (backend False ?d posts_123)"
  have "fst (loader_edit ?e page_request (Some ''123'') fresh_world)
      = Redirect ''/complete-profile''
          [(''Set-Cookie'', (case req_cookie page_request of None \<Rightarrow> [] | Some c \<Rightarrow> c))]"
    by (rule C5_not_found_redirect
          [where u = user_123 and d = ?d and r = "\<lparr>resp_ok = False, resp_json = Inr ?d\<rparr>"])
       (simp_all add: sample_defs isApiError_def)
  then show ?thesis by (simp add: sample_defs)
qed









section \<open>The profile-edit action\<close>

text \<open>
  C7. When the backend call of the profile-edit action rejects, or the body of its
  response cannot be decoded, the action does not throw: it returns an \<open>{error}\<close>
  result, with the error's message for an \<open>Error\<close> instance and with
  \<open>Failed to update profile\<close> for any other thrown value.
\<close>

theorem C7_transport_exception_caught:
  assumes "req_form rq = Inr fd" and "uid \<noteq> []" and "auth_user e = Some u" and "user_id u = uid"
    and "api_reply e (api_log w) (PatchUser uid (form_get fd ''name'') (form_get fd ''bio'')) = Inl ex
       \<or> (\<exists>r. api_reply e (api_log w) (PatchUser uid (form_get fd ''name'') (form_get fd ''bio''))
                 = Inr r \<and> resp_json r = Inl ex)"
  shows "fst (action_edit e rq (Some uid) w)
      = FormError (Some (JStr (if instanceof_Error ex then exn_message ex
                               else ''Failed to update profile'')))
    \<and> (\<forall>x. fst (action_edit e rq (Some uid) w) \<noteq> Thrown x)"
  using assms by (auto simp: handler_defs)

theorem C7_transport_exception_caught_witness:
  "fst (action_edit (env_of (Some user_123) (backend_down (JsTypeError ''fetch failed'')))
          edit_submission (Some ''123'') fresh_world)
     = FormError (Some (JStr ''fetch failed''))
   \<and> fst (action_edit (env_of (Some user_123) (backend_garbled NonErrorValue))
          edit_submission (Some ''123'') fresh_world)
     = FormError (Some (JStr ''Failed to update profile''))"
proof -
  let ?fd = "[(''name'', FormText ''Aya''), (''bio'', FormText ''hi'')]"
  have f: "req_form edit_submission = Inr ?fd" by (simp add: sample_defs)
  have n: "''123'' \<noteq> []" by simp
  have 1: "fst (action_edit (env_of (Some user_123) (backend_down (JsTypeError ''fetch failed'')))
                  edit_submission (Some ''123'') fresh_world)
             = FormError (Some (JStr ''fetch failed''))"
    using C7_transport_exception_caught
      [where e = "env_of (Some user_123) (backend_down (JsTypeError ''fetch failed''))"
         and u = user_123 and w = fresh_world and ex = "JsTypeError ''fetch failed''", OF f n]
    by (simp add: sample_defs)
  have 2: "fst (action_edit (env_of (Some user_123) (backend_garbled NonErrorValue))
                  edit_submission (Some ''123'') fresh_world)
             = FormError (Some (JStr ''Failed to update profile''))"
    using C7_transport_exception_caught
      [where e = "env_of (Some user_123) (backend_garbled NonErrorValue)"
         and u = user_123 and w = fresh_world and ex = NonErrorValue, OF f n]
    by (simp add: sample_defs)
  from 1 2 show ?thesis by simp
qed

lemma action_edit_accepted:
  assumes "req_form rq = Inr fd" and "uid \<noteq> []" and "auth_user e = Some u" and "user_id u = uid"
    and "api_reply e (api_log w) (PatchUser uid (form_get fd ''name'') (form_get fd ''bio'')) = Inr r"
    and "resp_ok r" and "resp_json r = Inr d" and "\<not> isApiError d"
  shows "action_edit e rq (Some uid) w
      = (Redirect (''/users/'' @ uid) [],
         w\<lparr>api_log := api_log w @ [PatchUser uid (form_get fd ''name'') (form_get fd ''bio'')]\<rparr>)"
  using assms by (simp add: handler_defs)

text \<open>
  C8. The owner submits the same \<open>{name, bio}\<close> patch twice, one submission after the
  other, and the backend accepts it both times. Both submissions end in a redirect to
  \<open>/users/{userId}\<close>, each adds exactly one \<open>PATCH\<close> call with the same arguments to
  the calls issued, and nothing else of the world changes: the console stays as it was.
\<close>

theorem C8_resubmission:
  assumes "req_form rq = Inr fd" and "uid \<noteq> []" and "auth_user e = Some u" and "user_id u = uid"
    and "c = PatchUser uid (form_get fd ''name'') (form_get fd ''bio'')"
    and "api_reply e (api_log w) c = Inr r1"
    and "resp_ok r1" and "resp_json r1 = Inr d1" and "\<not> isApiError d1"
    and "api_reply e (api_log w @ [c]) c = Inr r2"
    and "resp_ok r2" and "resp_json r2 = Inr d2" and "\<not> isApiError d2"
  shows "action_edit e rq (Some uid) w
      = (Redirect (''/users/'' @ uid) [], w\<lparr>api_log := api_log w @ [c]\<rparr>)
    \<and> action_edit e rq (Some uid) (w\<lparr>api_log := api_log w @ [c]\<rparr>)
      = (Redirect (''/users/'' @ uid) [], w\<lparr>api_log := api_log w @ [c, c]\<rparr>)"
proof -
  have first: "action_edit e rq (Some uid) w
      = (Redirect (''/users/'' @ uid) [], w\<lparr>api_log := api_log w @ [c]\<rparr>)"
    using assms(1-9) by (simp add: action_edit_accepted)
  have "api_reply e (api_log (w\<lparr>api_log := api_log w @ [c]\<rparr>))
          (PatchUser uid (form_get fd ''name'') (form_get fd ''bio'')) = Inr r2"
    using assms(5,10) by simp
  from action_edit_accepted [OF assms(1-4) this assms(11-13)]
  have "action_edit e rq (Some uid) (w\<lparr>api_log := api_log w @ [c]\<rparr>)
      = (Redirect (''/users/'' @ uid) [], w\<lparr>api_log := api_log w @ [c, c]\<rparr>)"
    using assms(5) by simp
  with first show ?thesis by simp
qed

theorem C8_resubmission_witness:
  "action_edit (env_of (Some user_123) (backend True profile_123 posts_123))
       edit_submission (Some ''123'') fresh_world
     = (Redirect ''/users/123'' [],
        \<lparr>api_log = [PatchUser ''123'' (Some (FormText ''Aya'')) (Some (FormText ''hi''))],
         console = []\<rparr>)
   \<and> action_edit (env_of (Some user_123) (backend True profile_123 posts_123))
       edit_submission (Some ''123'')
       \<lparr>api_log = [PatchUser ''123'' (Some (FormText ''Aya'')) (Some (FormText ''hi''))],
        console = []\<rparr>
     = (Redirect ''/users/123'' [],
        \<lparr>api_log = [PatchUser ''123'' (Some (FormText ''Aya'')) (Some (FormText ''hi'')),
                    PatchUser ''123'' (Some (FormText ''Aya'')) (Some (FormText ''hi''))],
         console = []\<rparr>)"
proof -
  let ?fd = "[(''name'', FormText ''Aya''), (''bio'', FormText ''hi'')]"
  let ?r = "\<lparr>resp_ok = True, resp_json = Inr profile_123\<rparr>"
  have f: "req_form edit_submission = Inr ?fd" by (simp add: sample_defs)
  have n: "''123'' \<noteq> []" by simp
  show ?thesis
    using C8_resubmission
      [where e = "env_of (Some user_123) (backend True profile_123 posts_123)"
         and u = user_123 and w = fresh_world
         and c = "PatchUser ''123'' (Some (FormText ''Aya'')) (Some (FormText ''hi''))"
         and ?r1.0 = ?r and ?r2.0 = ?r and ?d1.0 = profile_123 and ?d2.0 = profile_123,
       OF f n]
    by (simp add: sample_defs form_get_def isApiError_def)
qed

text \<open>
  C9. For an authorized submission whose backend call returns a response with a
  decodable body: when the status is ok but the body has a \<open>code\<close> field, the action
  returns \<open>{error: message}\<close> with the body's \<open>message\<close>; the action redirects exactly
  when the status is ok and the body has no \<open>code\<close> field, and then to
  \<open>/users/{userId}\<close>.
\<close>

theorem C9_ok_status_with_error_body:
  assumes "req_form rq = Inr fd" and "uid \<noteq> []" and "auth_user e = Some u" and "user_id u = uid"
    and "api_reply e (api_log w) (PatchUser uid (form_get fd ''name'') (form_get fd ''bio'')) = Inr r"
    and "resp_json r = Inr d"
  shows "(resp_ok r \<and> has_property ''code'' d
            \<longrightarrow> fst (action_edit e rq (Some uid) w) = FormError (get_prop ''message'' d))
    \<and> (is_redirect (fst (action_edit e rq (Some uid) w))
         = (resp_ok r \<and> \<not> has_property ''code'' d))
    \<and> (resp_ok r \<and> \<not> has_property ''code'' d
            \<longrightarrow> fst (action_edit e rq (Some uid) w) = Redirect (''/users/'' @ uid) [])"
  using assms by (simp add: handler_defs isApiError_has_code)

theorem C9_ok_status_with_error_body_witness:
  "fst (action_edit
          (env_of (Some user_123)
             (backend True
                (JObj [(''code'', JStr ''ValidationError''), (''message'', JStr ''name required'')])
                posts_123))
          edit_submission (Some ''123'') fresh_world)
     = FormError (Some (JStr ''name required''))
   \<and> fst (action_edit (env_of (Some user_123) (backend True profile_123 posts_123))
          edit_submission (Some ''123'') fresh_world)
     = Redirect ''/users/123'' []"
proof -
  let ?fd = "[(''name'', FormText ''Aya''), (''bio'', FormText ''hi'')]"
  let ?bad = "JObj [(''code'', JStr ''ValidationError''), (''message'', JStr ''name required'')]"
  have f: "req_form edit_submission = Inr ?fd" by (simp add: sample_defs)
  have n: "''123'' \<noteq> []" by simp
  have 1: "fst (action_edit (env_of (Some user_123) (backend True ?bad posts_123))
                  edit_submission (Some ''123'') fresh_world)
             = FormError (Some (JStr ''name required''))"
    using C9_ok_status_with_error_body
      [where e = "env_of (Some user_123) (backend True ?bad posts_123)"
         and u = user_123 and w = fresh_world
         and r = "\<lparr>resp_ok = True, resp_json = Inr ?bad\<rparr>" and d = ?bad, OF f n]
    by (simp add: sample_defs)
  have 2: "fst (action_edit (env_of (Some user_123) (backend True profile_123 posts_123))
                  edit_submission (Some ''123'') fresh_world)
             = Redirect ''/users/123'' []"
    using C9_ok_status_with_error_body
      [where e = "env_of (Some user_123) (backend True profile_123 posts_123)"
         and u = user_123 and w = fresh_world
         and r = "\<lparr>resp_ok = True, resp_json = Inr profile_123\<rparr>" and d = profile_123, OF f n]
    by (simp add: sample_defs)
  from 1 2 show ?thesis by simp
qed

section \<open>Totality of the classifiers\<close>

text \<open>
  C10. \<open>isErrorResponse\<close> is not total on decoded payloads: on \<open>null\<close> the \<open>in\<close>
  operator throws a \<open>TypeError\<close>. \<open>isApiError\<close> answers false for \<open>null\<close> and for
  every other payload that is not an object.
\<close>

theorem C10_isErrorResponse_partial:
  "isErrorResponse JNull = Inl (JsTypeError (in_operator_message ''error'' JNull))
   \<and> isApiError JNull = False
   \<and> (is_primitive v \<longrightarrow> isApiError v = False)"
  by (cases v) (simp_all add: isErrorResponse_def js_in_def isApiError_def)

theorem C10_isErrorResponse_partial_witness:
  "is_primitive (JStr ''oops'') \<and> isApiError (JStr ''oops'') = False
   \<and> isErrorResponse JNull
       = Inl (JsTypeError ''Cannot use 'in' operator to search for 'error' in null'')"
  using C10_isErrorResponse_partial [of "JStr ''oops''"]
  by (simp add: in_operator_message_def)

end
